theory Spec2Isabelle
  imports Complex_Main
begin

section \<open>Data model: the pandas DataFrame handled by app.py\<close>

text \<open>
  \<^verbatim>\<open>app.py\<close> works on a \<^verbatim>\<open>pandas.DataFrame\<close>: a row index, a column index and an ordered
  sequence of columns, each with a label, a dtype and one cell per row. The cell kinds
  are those of the specification's data model (string, integer, float, boolean,
  missing); dates and other Python objects are outside it. An integer cell is a Python
  integer, of any size. pandas has three markers for a missing value, which \<^verbatim>\<open>str\<close>
  renders differently: Python's \<^verbatim>\<open>None\<close>, the float \<^verbatim>\<open>nan\<close> and the nullable dtypes'
  \<^verbatim>\<open>pd.NA\<close>.

  A float cell is modelled by the real number it denotes. What depends on the binary
  representation is a parameter of the model: the text \<^verbatim>\<open>str\<close> gives for a float, and the
  float nearest to an integer.

  The pandas operations follow their behaviour in pandas 2: \<^verbatim>\<open>convert_dtypes\<close> yields the
  nullable dtypes, and \<^verbatim>\<open>astype(str)\<close> yields an \<^verbatim>\<open>object\<close> column of Python strings.
\<close>

datatype na_kind = PyNone | NaN | NA

datatype cell = VInt int | VFloat real | VStr string | VBool bool | VMissing na_kind

record py_float =
  float_str :: "real \<Rightarrow> string"
  float_of_int :: "int \<Rightarrow> real"

text \<open>
  The dtypes a column of these cells can have: the NumPy dtypes a reader produces
  (\<^verbatim>\<open>int64\<close>, \<^verbatim>\<open>uint64\<close>, \<^verbatim>\<open>float64\<close>, \<^verbatim>\<open>bool\<close>, \<^verbatim>\<open>object\<close>) and the nullable extension
  dtypes that \<^verbatim>\<open>convert_dtypes\<close> produces (\<^verbatim>\<open>Int64\<close>, \<^verbatim>\<open>UInt64\<close>, \<^verbatim>\<open>Float64\<close>, \<^verbatim>\<open>boolean\<close>,
  \<^verbatim>\<open>string\<close>).
\<close>

datatype dtype =
  D_int64 | D_uint64 | D_float64 | D_bool | D_object
| D_Int64 | D_UInt64 | D_Float64 | D_boolean | D_string

record column =
  name :: string
  dtype :: dtype
  cells :: "cell list"

text \<open>
  \<open>nrows\<close> is the length of the row index (\<^verbatim>\<open>len(df)\<close>, \<^verbatim>\<open>df.shape[0]\<close>): a frame
  keeps its index when it has no column left. \<open>columns_index\<close> is the kind of
  \<^verbatim>\<open>df.columns\<close>: an \<^verbatim>\<open>object\<close> index of string labels, or the default \<^verbatim>\<open>RangeIndex\<close> of
  integer positions, which is what \<^verbatim>\<open>pd.DataFrame()\<close> has (the frame \<^verbatim>\<open>read_excel\<close> returns
  for an empty sheet).
\<close>

datatype index_kind = ObjectIndex | RangeIndex

record dataframe =
  nrows :: nat
  columns_index :: index_kind
  series :: "column list"

definition columns :: "dataframe \<Rightarrow> string list" where
  "columns df = map name (series df)"

text \<open>\<^verbatim>\<open>df.shape\<close>\<close>

definition shape :: "dataframe \<Rightarrow> nat \<times> nat" where
  "shape df = (nrows df, length (series df))"

text \<open>\<^verbatim>\<open>df.select_dtypes(include=[...])\<close>: the columns whose dtype is listed, in order.\<close>

definition select_dtypes :: "dtype list \<Rightarrow> dataframe \<Rightarrow> dataframe" where
  "select_dtypes incl df = df\<lparr>series := filter (\<lambda>c. dtype c \<in> set incl) (series df)\<rparr>"

text \<open>The exceptions the modelled code can raise.\<close>

datatype py_error = AttributeError | OverflowError | KeyError | TypeError

subsection \<open>Cells\<close>

fun is_missing :: "cell \<Rightarrow> bool" where
  "is_missing (VMissing k) = True"
| "is_missing x = False"

fun is_str :: "cell \<Rightarrow> bool" where
  "is_str (VStr s) = True"
| "is_str x = False"

fun is_bool :: "cell \<Rightarrow> bool" where
  "is_bool (VBool b) = True"
| "is_bool x = False"

fun is_int :: "cell \<Rightarrow> bool" where
  "is_int (VInt i) = True"
| "is_int x = False"

fun is_float :: "cell \<Rightarrow> bool" where
  "is_float (VFloat f) = True"
| "is_float x = False"

definition present :: "cell list \<Rightarrow> cell list" where
  "present xs = filter (\<lambda>x. \<not> is_missing x) xs"

text \<open>The ranges of the 64-bit integer dtypes, and the integers a float can hold.\<close>

definition in_int64 :: "int \<Rightarrow> bool" where
  "in_int64 i = (- (2 ^ 63) \<le> i \<and> i < 2 ^ 63)"

definition in_uint64 :: "int \<Rightarrow> bool" where
  "in_uint64 i = (0 \<le> i \<and> i < 2 ^ 64)"

text \<open>
  Converting a Python integer to a float raises \<^verbatim>\<open>OverflowError\<close> when the nearest float
  would be beyond the largest one, \<open>2 ^ 1024 - 2 ^ 971\<close>.
\<close>

definition fits_float :: "int \<Rightarrow> bool" where
  "fits_float i = (\<bar>i\<bar> < 2 ^ 1024 - 2 ^ 970)"

text \<open>Casting a cell into a nullable dtype: every missing marker becomes \<^verbatim>\<open>pd.NA\<close>.\<close>

fun to_NA :: "cell \<Rightarrow> cell" where
  "to_NA (VMissing k) = VMissing NA"
| "to_NA x = x"

text \<open>
  \<^verbatim>\<open>arr.astype(int) == arr\<close> on a float: the cast to \<^verbatim>\<open>int64\<close> truncates, and a float
  outside the \<^verbatim>\<open>int64\<close> range does not survive it (on x86-64 the cast gives \<open>- 2 ^ 63\<close>).
\<close>

fun castable_int64 :: "cell \<Rightarrow> bool" where
  "castable_int64 (VFloat f) = (of_int \<lfloor>f\<rfloor> = f \<and> - (2 ^ 63) \<le> f \<and> f < 2 ^ 63)"
| "castable_int64 x = False"

fun as_int :: "cell \<Rightarrow> cell" where
  "as_int (VFloat f) = VInt \<lfloor>f\<rfloor>"
| "as_int (VMissing k) = VMissing NA"
| "as_int x = x"

text \<open>An \<^verbatim>\<open>object\<close> cell in a \<^verbatim>\<open>float64\<close> array, where the missing marker is \<^verbatim>\<open>nan\<close>.\<close>

fun as_float64 :: "py_float \<Rightarrow> cell \<Rightarrow> cell" where
  "as_float64 fl (VInt i) = VFloat (float_of_int fl i)"
| "as_float64 fl (VMissing k) = VMissing NaN"
| "as_float64 fl x = x"

text \<open>An \<^verbatim>\<open>object\<close> cell cast to the nullable \<^verbatim>\<open>Float64\<close>.\<close>

fun as_Float64 :: "py_float \<Rightarrow> cell \<Rightarrow> cell" where
  "as_Float64 fl (VInt i) = VFloat (float_of_int fl i)"
| "as_Float64 fl (VMissing k) = VMissing NA"
| "as_Float64 fl x = x"

subsection \<open>Python's \<^verbatim>\<open>str\<close> on a cell\<close>

definition digit_char :: "nat \<Rightarrow> char" where
  "digit_char d = ''0123456789'' ! d"

function py_str_nat :: "nat \<Rightarrow> string" where
  "py_str_nat n = (if n < 10 then [digit_char n] else py_str_nat (n div 10) @ [digit_char (n mod 10)])"
  by pat_completeness auto
termination
  by (relation "measure (\<lambda>n. n)") auto

definition py_str_int :: "int \<Rightarrow> string" where
  "py_str_int i = (if i < 0 then CHR ''-'' # py_str_nat (nat (- i)) else py_str_nat (nat i))"

fun py_str :: "py_float \<Rightarrow> cell \<Rightarrow> string" where
  "py_str fl (VInt i) = py_str_int i"
| "py_str fl (VFloat f) = float_str fl f"
| "py_str fl (VStr s) = s"
| "py_str fl (VBool b) = (if b then ''True'' else ''False'')"
| "py_str fl (VMissing PyNone) = ''None''"
| "py_str fl (VMissing NaN) = ''nan''"
| "py_str fl (VMissing NA) = ''<NA>''"

section \<open>The sanitizer: \<^verbatim>\<open>clean_dataframe\<close>\<close>

text \<open>
  \<^verbatim>\<open>df.columns.str.contains("^Unnamed")\<close> is a regular-expression search: the anchor
  \<^verbatim>\<open>^\<close> ties the literal to the start of the label, so a label matches exactly when it
  begins with the seven characters \<^verbatim>\<open>Unnamed\<close>.
\<close>

definition str_contains_Unnamed :: "string \<Rightarrow> bool" where
  "str_contains_Unnamed s = (take 7 s = ''Unnamed'')"

text \<open>
  \<^verbatim>\<open>df = df.loc[:, ~df.columns.str.contains("^Unnamed")]\<close>. The \<^verbatim>\<open>.str\<close> accessor exists on
  an index of strings only: on a \<^verbatim>\<open>RangeIndex\<close> it raises \<^verbatim>\<open>AttributeError\<close>. The selection
  keeps the row index, and its columns are an \<^verbatim>\<open>object\<close> index even when none is left.
\<close>

definition drop_unnamed :: "dataframe \<Rightarrow> py_error + dataframe" where
  "drop_unnamed df =
     (if columns_index df = RangeIndex then Inl AttributeError
      else Inr (df\<lparr>series := filter (\<lambda>c. \<not> str_contains_Unnamed (name c)) (series df)\<rparr>))"

subsection \<open>\<^verbatim>\<open>convert_dtypes\<close>, first step: \<^verbatim>\<open>infer_objects\<close>\<close>

text \<open>
  On an \<^verbatim>\<open>object\<close> column \<^verbatim>\<open>convert_dtypes\<close> first looks for a NumPy dtype that holds the
  values (\<^verbatim>\<open>lib.maybe_convert_objects\<close>). It reads the cells in order and notes what it
  has seen; a string, a \<^verbatim>\<open>pd.NA\<close> or an integer that no 64-bit dtype can hold together with
  the integers before it stops the reading with the column left as it is. The range of
  an integer is not looked at once a \<^verbatim>\<open>None\<close> has been seen, since the result is then a
  float array; every integer is converted to a float on the way.
\<close>

record seen =
  seen_null :: bool
  seen_nan :: bool
  seen_bool :: bool
  seen_float :: bool
  seen_int :: bool
  seen_uint :: bool
  seen_sint :: bool
  seen_object :: bool

definition seen_nothing :: seen where
  "seen_nothing =
     \<lparr>seen_null = False, seen_nan = False, seen_bool = False, seen_float = False,
      seen_int = False, seen_uint = False, seen_sint = False, seen_object = False\<rparr>"

fun scan_objects :: "seen \<Rightarrow> cell list \<Rightarrow> py_error + seen" where
  "scan_objects s [] = Inr s"
| "scan_objects s (VMissing PyNone # xs) = scan_objects (s\<lparr>seen_null := True\<rparr>) xs"
| "scan_objects s (VMissing NaN # xs) = scan_objects (s\<lparr>seen_nan := True\<rparr>) xs"
| "scan_objects s (VMissing NA # xs) = Inr (s\<lparr>seen_object := True\<rparr>)"
| "scan_objects s (VBool b # xs) = scan_objects (s\<lparr>seen_bool := True\<rparr>) xs"
| "scan_objects s (VFloat f # xs) = scan_objects (s\<lparr>seen_float := True\<rparr>) xs"
| "scan_objects s (VStr t # xs) = Inr (s\<lparr>seen_object := True\<rparr>)"
| "scan_objects s (VInt i # xs) =
     (if \<not> fits_float i then Inl OverflowError
      else if seen_null s then scan_objects (s\<lparr>seen_int := True\<rparr>) xs
      else
        (let s' = s\<lparr>seen_int := True,
                     seen_sint := seen_sint s \<or> (in_int64 i \<and> i < 0),
                     seen_uint := seen_uint s \<or> (in_uint64 i \<and> \<not> in_int64 i)\<rparr>
         in if (seen_uint s' \<and> seen_sint s') \<or> \<not> in_uint64 i \<and> \<not> in_int64 i
            then Inr (s'\<lparr>seen_object := True\<rparr>)
            else scan_objects s' xs))"

text \<open>The array \<^verbatim>\<open>infer_objects\<close> returns for what was seen.\<close>

definition infer_objects :: "py_float \<Rightarrow> column \<Rightarrow> py_error + column" where
  "infer_objects fl c =
     (case scan_objects seen_nothing (cells c) of
        Inl e \<Rightarrow> Inl e
      | Inr s \<Rightarrow>
          Inr (if seen_bool s then
                 (if seen_int s \<or> seen_float s \<or> seen_nan s \<or> seen_null s \<or> seen_object s
                  then c else c\<lparr>dtype := D_bool\<rparr>)
               else if seen_object s then c
               else if seen_null s \<or> seen_nan s then
                 (if seen_float s \<or> seen_int s \<or> seen_nan s
                  then c\<lparr>dtype := D_float64, cells := map (as_float64 fl) (cells c)\<rparr>
                  else c)
               else if seen_float s then
                 c\<lparr>dtype := D_float64, cells := map (as_float64 fl) (cells c)\<rparr>
               else if seen_int s then
                 (if seen_uint s then c\<lparr>dtype := D_uint64\<rparr> else c\<lparr>dtype := D_int64\<rparr>)
               else c))"

subsection \<open>\<^verbatim>\<open>convert_dtypes\<close>, second step: the nullable dtype\<close>

text \<open>
  A \<^verbatim>\<open>float64\<close> column becomes \<^verbatim>\<open>Int64\<close> when every value that is not missing survives the
  cast to \<^verbatim>\<open>int64\<close>, and \<^verbatim>\<open>Float64\<close> otherwise.
\<close>

definition float64_to_nullable :: "column \<Rightarrow> column" where
  "float64_to_nullable c =
     (if list_all castable_int64 (present (cells c))
      then c\<lparr>dtype := D_Int64, cells := map as_int (cells c)\<rparr>
      else c\<lparr>dtype := D_Float64, cells := map to_NA (cells c)\<rparr>)"

text \<open>
  For a column that is still \<^verbatim>\<open>object\<close>, \<^verbatim>\<open>lib.infer_dtype\<close> names what its values are,
  skipping the missing ones.
\<close>

datatype inferred =
  I_empty | I_string | I_integer | I_boolean | I_floating | I_mixed_integer_float | I_mixed

definition infer_dtype :: "cell list \<Rightarrow> inferred" where
  "infer_dtype xs =
     (let ps = present xs in
      if ps = [] then I_empty
      else if list_all is_str ps then I_string
      else if list_all is_int ps then I_integer
      else if list_all is_bool ps then I_boolean
      else if list_all is_float ps then I_floating
      else if list_all (\<lambda>x. is_int x \<or> is_float x) ps then I_mixed_integer_float
      else I_mixed)"

text \<open>
  Integers that stayed \<^verbatim>\<open>object\<close> are cast to \<^verbatim>\<open>Int64\<close>, which raises \<^verbatim>\<open>OverflowError\<close> on
  one outside the \<^verbatim>\<open>int64\<close> range. A column of mixed values, of floats only or without
  any value keeps dtype \<^verbatim>\<open>object\<close> and its cells.
\<close>

fun int64_or_missing :: "cell \<Rightarrow> bool" where
  "int64_or_missing (VInt i) = in_int64 i"
| "int64_or_missing x = True"

definition object_to_nullable :: "py_float \<Rightarrow> column \<Rightarrow> py_error + column" where
  "object_to_nullable fl c =
     (case infer_dtype (cells c) of
        I_string \<Rightarrow> Inr (c\<lparr>dtype := D_string, cells := map to_NA (cells c)\<rparr>)
      | I_integer \<Rightarrow>
          (if list_all int64_or_missing (cells c)
           then Inr (c\<lparr>dtype := D_Int64, cells := map to_NA (cells c)\<rparr>)
           else Inl OverflowError)
      | I_boolean \<Rightarrow> Inr (c\<lparr>dtype := D_boolean, cells := map to_NA (cells c)\<rparr>)
      | I_mixed_integer_float \<Rightarrow>
          Inr (c\<lparr>dtype := D_Float64, cells := map (as_Float64 fl) (cells c)\<rparr>)
      | I_floating \<Rightarrow> Inr c
      | I_empty \<Rightarrow> Inr c
      | I_mixed \<Rightarrow> Inr c)"

definition to_nullable :: "py_float \<Rightarrow> column \<Rightarrow> py_error + column" where
  "to_nullable fl c =
     (case dtype c of
        D_int64 \<Rightarrow> Inr (c\<lparr>dtype := D_Int64\<rparr>)
      | D_uint64 \<Rightarrow> Inr (c\<lparr>dtype := D_UInt64\<rparr>)
      | D_float64 \<Rightarrow> Inr (float64_to_nullable c)
      | D_bool \<Rightarrow> Inr (c\<lparr>dtype := D_boolean\<rparr>)
      | D_object \<Rightarrow> object_to_nullable fl c
      | D_Int64 \<Rightarrow> Inr c
      | D_UInt64 \<Rightarrow> Inr c
      | D_Float64 \<Rightarrow> Inr c
      | D_boolean \<Rightarrow> Inr c
      | D_string \<Rightarrow> Inr c)"

text \<open>
  \<^verbatim>\<open>df.convert_dtypes()\<close>, column by column. A column that already has an extension
  dtype is returned as it is.
\<close>

definition convert_dtypes_col :: "py_float \<Rightarrow> column \<Rightarrow> py_error + column" where
  "convert_dtypes_col fl c =
     (if dtype c = D_object then
        (case infer_objects fl c of Inl e \<Rightarrow> Inl e | Inr c' \<Rightarrow> to_nullable fl c')
      else to_nullable fl c)"

fun convert_columns :: "py_float \<Rightarrow> column list \<Rightarrow> py_error + column list" where
  "convert_columns fl [] = Inr []"
| "convert_columns fl (c # cs) =
     (case convert_dtypes_col fl c of
        Inl e \<Rightarrow> Inl e
      | Inr c' \<Rightarrow>
          (case convert_columns fl cs of Inl e \<Rightarrow> Inl e | Inr cs' \<Rightarrow> Inr (c' # cs')))"

definition convert_dtypes :: "py_float \<Rightarrow> dataframe \<Rightarrow> py_error + dataframe" where
  "convert_dtypes fl df =
     (case convert_columns fl (series df) of
        Inl e \<Rightarrow> Inl e
      | Inr cs \<Rightarrow> Inr (df\<lparr>series := cs\<rparr>))"

subsection \<open>The function\<close>

text \<open>
  \<^verbatim>\<open>df[col].astype(str)\<close>: \<^verbatim>\<open>str\<close> applied to every cell, missing markers included. The
  result holds Python strings and has dtype \<^verbatim>\<open>object\<close>.
\<close>

definition astype_str :: "py_float \<Rightarrow> column \<Rightarrow> column" where
  "astype_str fl c = c\<lparr>dtype := D_object, cells := map (\<lambda>x. VStr (py_str fl x)) (cells c)\<rparr>"

text \<open>The loop body \<^verbatim>\<open>df[col] = df[col].astype(str)\<close>: the column labelled \<open>col\<close> is replaced in place.\<close>

definition setitem_astype_str :: "py_float \<Rightarrow> string \<Rightarrow> dataframe \<Rightarrow> dataframe" where
  "setitem_astype_str fl col df =
     df\<lparr>series := map (\<lambda>c. if name c = col then astype_str fl c else c) (series df)\<rparr>"

text \<open>
  \<^verbatim>\<open>
  def clean_dataframe(df):
      df = df.loc[:, ~df.columns.str.contains("^Unnamed")]
      df = df.convert_dtypes()
      for col in df.select_dtypes(include=['object']).columns:
          df[col] = df[col].astype(str)
      return df
  \<close>
  The labels the loop runs over are computed once, before the first iteration.
\<close>

definition clean_dataframe :: "py_float \<Rightarrow> dataframe \<Rightarrow> py_error + dataframe" where
  "clean_dataframe fl df =
     (case drop_unnamed df of
        Inl e \<Rightarrow> Inl e
      | Inr df1 \<Rightarrow>
          (case convert_dtypes fl df1 of
             Inl e \<Rightarrow> Inl e
           | Inr df2 \<Rightarrow>
               Inr (fold (setitem_astype_str fl) (columns (select_dtypes [D_object] df2)) df2)))"

section \<open>Well-typed frames\<close>

text \<open>
  The cells a column of each dtype can hold. A NumPy column has no \<^verbatim>\<open>pd.NA\<close>: \<^verbatim>\<open>float64\<close>
  marks a missing value by \<^verbatim>\<open>nan\<close>, the integer dtypes and \<^verbatim>\<open>bool\<close> have none, and an
  \<^verbatim>\<open>object\<close> column read from a file holds any value, \<^verbatim>\<open>None\<close> or \<^verbatim>\<open>nan\<close>. A nullable column
  holds values of its kind and \<^verbatim>\<open>pd.NA\<close>.
\<close>

fun int_in :: "(int \<Rightarrow> bool) \<Rightarrow> cell \<Rightarrow> bool" where
  "int_in p (VInt i) = p i"
| "int_in p x = False"

fun cell_ok :: "dtype \<Rightarrow> cell \<Rightarrow> bool" where
  "cell_ok D_int64 x = int_in in_int64 x"
| "cell_ok D_uint64 x = int_in in_uint64 x"
| "cell_ok D_float64 x = (is_float x \<or> x = VMissing NaN)"
| "cell_ok D_bool x = is_bool x"
| "cell_ok D_object x = (x \<noteq> VMissing NA)"
| "cell_ok D_Int64 x = (int_in in_int64 x \<or> x = VMissing NA)"
| "cell_ok D_UInt64 x = (int_in in_uint64 x \<or> x = VMissing NA)"
| "cell_ok D_Float64 x = (is_float x \<or> x = VMissing NA)"
| "cell_ok D_boolean x = (is_bool x \<or> x = VMissing NA)"
| "cell_ok D_string x = (is_str x \<or> x = VMissing NA)"

definition wf_column :: "column \<Rightarrow> bool" where
  "wf_column c = list_all (cell_ok (dtype c)) (cells c)"

text \<open>
  A frame of the data model: every column is well typed and has one cell per row, no
  two columns share a label (\<^verbatim>\<open>read_csv\<close> and \<^verbatim>\<open>read_excel\<close> rename duplicates), and the
  labels are strings, so that a frame with a \<^verbatim>\<open>RangeIndex\<close> has no column.
\<close>

definition wf_df :: "dataframe \<Rightarrow> bool" where
  "wf_df df =
     (list_all wf_column (series df) \<and>
      list_all (\<lambda>c. length (cells c) = nrows df) (series df) \<and>
      distinct (columns df) \<and>
      (columns_index df = ObjectIndex \<or> series df = []))"


text \<open>
  A column of one kind: a nullable dtype whose cells are values of that kind or
  \<^verbatim>\<open>pd.NA\<close>, or an \<^verbatim>\<open>object\<close> column in which every cell is a string.
\<close>

definition uniform_column :: "column \<Rightarrow> bool" where
  "uniform_column c =
     (case dtype c of
        D_Int64 \<Rightarrow> list_all (\<lambda>x. is_int x \<or> x = VMissing NA) (cells c)
      | D_UInt64 \<Rightarrow> list_all (\<lambda>x. is_int x \<or> x = VMissing NA) (cells c)
      | D_Float64 \<Rightarrow> list_all (\<lambda>x. is_float x \<or> x = VMissing NA) (cells c)
      | D_boolean \<Rightarrow> list_all (\<lambda>x. is_bool x \<or> x = VMissing NA) (cells c)
      | D_string \<Rightarrow> list_all (\<lambda>x. is_str x \<or> x = VMissing NA) (cells c)
      | D_object \<Rightarrow> list_all is_str (cells c)
      | D_int64 \<Rightarrow> False
      | D_uint64 \<Rightarrow> False
      | D_float64 \<Rightarrow> False
      | D_bool \<Rightarrow> False)"

text \<open>A column whose cells have the kind of its dtype, whatever their size.\<close>

definition kinded_column :: "column \<Rightarrow> bool" where
  "kinded_column c =
     (case dtype c of
        D_int64 \<Rightarrow> list_all is_int (cells c)
      | D_uint64 \<Rightarrow> list_all is_int (cells c)
      | D_float64 \<Rightarrow> list_all (\<lambda>x. is_float x \<or> is_missing x) (cells c)
      | D_bool \<Rightarrow> list_all is_bool (cells c)
      | D_object \<Rightarrow> True
      | D_Int64 \<Rightarrow> uniform_column c
      | D_UInt64 \<Rightarrow> uniform_column c
      | D_Float64 \<Rightarrow> uniform_column c
      | D_boolean \<Rightarrow> uniform_column c
      | D_string \<Rightarrow> uniform_column c)"

text \<open>The last step of \<open>clean_dataframe\<close> on one column.\<close>

definition finish_col :: "py_float \<Rightarrow> column \<Rightarrow> column" where
  "finish_col fl c = (if dtype c = D_object then astype_str fl c else c)"

subsection \<open>The CleanTable of the specification\<close>

text \<open>
  The specification's CleanTable gives every column one semantic kind, and does not
  tell a NumPy dtype from its nullable twin, nor \<^verbatim>\<open>object\<close> strings from \<^verbatim>\<open>string\<close>: both
  are Text, as in the snapshot's \<^verbatim>\<open>include=["string", "object"]\<close>. The code has
  boolean columns as well. A frame read as a CleanTable is its row count and, for each
  column, the label, the kind and the cells.
\<close>

datatype kind = K_Integer | K_Float | K_Text | K_Boolean

fun kind_of :: "dtype \<Rightarrow> kind" where
  "kind_of D_int64 = K_Integer"
| "kind_of D_uint64 = K_Integer"
| "kind_of D_Int64 = K_Integer"
| "kind_of D_UInt64 = K_Integer"
| "kind_of D_float64 = K_Float"
| "kind_of D_Float64 = K_Float"
| "kind_of D_bool = K_Boolean"
| "kind_of D_boolean = K_Boolean"
| "kind_of D_object = K_Text"
| "kind_of D_string = K_Text"

definition clean_table :: "dataframe \<Rightarrow> nat \<times> (string \<times> kind \<times> cell list) list" where
  "clean_table df = (nrows df, map (\<lambda>c. (name c, kind_of (dtype c), cells c)) (series df))"

section \<open>The snapshot builder: \<^verbatim>\<open>build_dataset_snapshot\<close>\<close>

text \<open>
  \<^verbatim>\<open>df.head(n)\<close>: the first \<open>n\<close> rows, or all rows but the last \<open>-n\<close> when \<open>n\<close> is negative.
\<close>

definition head_count :: "nat \<Rightarrow> int \<Rightarrow> nat" where
  "head_count n k = (if 0 \<le> k then min (nat k) n else nat (int n + k))"

definition head :: "dataframe \<Rightarrow> int \<Rightarrow> dataframe" where
  "head df k =
     df\<lparr>nrows := head_count (nrows df) k,
        series := map (\<lambda>c. c\<lparr>cells := take (head_count (nrows df) k) (cells c)\<rparr>) (series df)\<rparr>"

text \<open>
  The three library functions that turn the values into text are outside the program
  and are parameters of the model: the \<^verbatim>\<open>repr\<close> of a list of strings (what an f-string
  writes for \<^verbatim>\<open>{cols}\<close>), \<^verbatim>\<open>DataFrame.to_csv(index=False)\<close> and \<^verbatim>\<open>textwrap.dedent\<close>.
\<close>

record py_text =
  repr_list :: "string list \<Rightarrow> string"
  to_csv :: "dataframe \<Rightarrow> string"
  dedent :: "string \<Rightarrow> string"

text \<open>
  \<^verbatim>\<open>
  def build_dataset_snapshot(df, max_rows=10):
      rows_text = df.head(max_rows).to_csv(index=False)
      cols = df.columns.tolist()
      shape = df.shape
      numeric = df.select_dtypes(include=["int64", "float64", "Int64", "Float64"]).columns.tolist()
      cat = df.select_dtypes(include=["string", "object"]).columns.tolist()
      snapshot = textwrap.dedent(f"""
      Dataset shape: {shape[0]} rows x {shape[1]} columns
      Columns: {cols}
      Numeric columns: {numeric}
      Categorical/text columns: {cat}

      First {min(max_rows, len(df))} rows (CSV):
      {rows_text}
      """)
      return snapshot
  \<close>
  In the source the lines of the template are indented by four spaces.
\<close>

definition build_dataset_snapshot :: "py_text \<Rightarrow> dataframe \<Rightarrow> int \<Rightarrow> string" where
  "build_dataset_snapshot lib df max_rows =
     (let rows_text = to_csv lib (head df max_rows);
          cols = columns df;
          shp = shape df;
          numeric = columns (select_dtypes [D_int64, D_float64, D_Int64, D_Float64] df);
          cat = columns (select_dtypes [D_string, D_object] df)
      in dedent lib
        (CHR 0x0A # ''    Dataset shape: '' @ py_str_nat (fst shp) @ '' rows x '' @
           py_str_nat (snd shp) @ '' columns'' @
         CHR 0x0A # ''    Columns: '' @ repr_list lib cols @
         CHR 0x0A # ''    Numeric columns: '' @ repr_list lib numeric @
         CHR 0x0A # ''    Categorical/text columns: '' @ repr_list lib cat @
         CHR 0x0A # CHR 0x0A # ''    First '' @ py_str_int (min max_rows (int (nrows df))) @
           '' rows (CSV):'' @
         CHR 0x0A # ''    '' @ rows_text @
         CHR 0x0A # ''    ''))"

section \<open>The stats summarizer: \<^verbatim>\<open>local_basic_stats_text\<close>\<close>

text \<open>
  The six numbers of a line come from \<^verbatim>\<open>describe()\<close> and \<^verbatim>\<open>median()\<close>, which compute in
  \<^verbatim>\<open>float64\<close> arithmetic, and are written by the format specifications \<^verbatim>\<open>:.3f\<close> and
  \<^verbatim>\<open>:.0f\<close>. Both are outside the model: the text written for a statistic of a column is
  the parameter \<open>stat_text\<close>.
\<close>

datatype stat = S_mean | S_median | S_std | S_min | S_max | S_count

text \<open>
  \<^verbatim>\<open>f"- {col}: mean={mean:.3f}, median={median:.3f}, std={std:.3f}, min={min_val:.3f},
  max={max_val:.3f}, n={count:.0f}"\<close>
\<close>

definition stat_line :: "(stat \<Rightarrow> column \<Rightarrow> string) \<Rightarrow> column \<Rightarrow> string" where
  "stat_line stat_text c =
     ''- '' @ name c @ '': mean='' @ stat_text S_mean c @
     '', median='' @ stat_text S_median c @
     '', std='' @ stat_text S_std c @
     '', min='' @ stat_text S_min c @
     '', max='' @ stat_text S_max c @
     '', n='' @ stat_text S_count c"

text \<open>\<^verbatim>\<open>xs[:k]\<close>: a negative \<open>k\<close> counts from the end.\<close>

definition py_slice_to :: "'a list \<Rightarrow> int \<Rightarrow> 'a list" where
  "py_slice_to xs k = (if 0 \<le> k then take (nat k) xs else take (nat (int (length xs) + k)) xs)"

text \<open>\<^verbatim>\<open>"\n".join(stats)\<close>\<close>

fun join_lines :: "string list \<Rightarrow> string" where
  "join_lines [] = []"
| "join_lines [l] = l"
| "join_lines (l # ls) = l @ CHR 0x0A # join_lines ls"

text \<open>
  The \<^verbatim>\<open>for\<close> loop. \<^verbatim>\<open>desc.loc[col, 'mean']\<close> and \<^verbatim>\<open>nums[col]\<close> look the column up by its
  label: when two numeric columns share the label they return a Series instead of a
  number, and formatting it with \<^verbatim>\<open>:.3f\<close> raises \<^verbatim>\<open>TypeError\<close>.
\<close>

fun stats_loop ::
  "(stat \<Rightarrow> column \<Rightarrow> string) \<Rightarrow> dataframe \<Rightarrow> string list \<Rightarrow> string list \<Rightarrow>
     py_error + string list" where
  "stats_loop stat_text nums [] stats = Inr stats"
| "stats_loop stat_text nums (col # rest) stats =
     (case filter (\<lambda>c. name c = col) (series nums) of
        [] \<Rightarrow> Inl KeyError
      | [c] \<Rightarrow> stats_loop stat_text nums rest (stats @ [stat_line stat_text c])
      | _ \<Rightarrow> Inl TypeError)"

text \<open>\<^verbatim>\<open>f"...and {nums.shape[1] - numeric_limit} more numeric columns."\<close>\<close>

definition more_line :: "nat \<Rightarrow> int \<Rightarrow> string" where
  "more_line n numeric_limit =
     ''...and '' @ py_str_int (int n - numeric_limit) @ '' more numeric columns.''"

text \<open>
  \<^verbatim>\<open>
  def local_basic_stats_text(df, numeric_limit=5):
      nums = df.select_dtypes(include=["int64", "float64", "Int64", "Float64"])
      if nums.shape[1] == 0:
          return "No numeric columns detected."
      stats = []
      desc = nums.describe().transpose()
      for col in desc.index[:numeric_limit]:
          ...
          stats.append(f"- {col}: mean={mean:.3f}, ..., n={count:.0f}")
      if nums.shape[1] > numeric_limit:
          stats.append(f"...and {nums.shape[1] - numeric_limit} more numeric columns.")
      return "\n".join(stats)
  \<close>
\<close>

definition nums_of :: "dataframe \<Rightarrow> dataframe" where
  "nums_of df = select_dtypes [D_int64, D_float64, D_Int64, D_Float64] df"

definition local_basic_stats_text ::
  "(stat \<Rightarrow> column \<Rightarrow> string) \<Rightarrow> dataframe \<Rightarrow> int \<Rightarrow> py_error + string" where
  "local_basic_stats_text stat_text df numeric_limit =
     (let nums = nums_of df in
      if snd (shape nums) = 0 then Inr ''No numeric columns detected.''
      else
        (case stats_loop stat_text nums (py_slice_to (columns nums) numeric_limit) [] of
           Inl e \<Rightarrow> Inl e
         | Inr stats \<Rightarrow>
             Inr (join_lines
               (if int (snd (shape nums)) > numeric_limit
                then stats @ [more_line (snd (shape nums)) numeric_limit]
                else stats))))"

section \<open>The "Ask" action\<close>

text \<open>
  The completion service is outside the program: a client is a function from the model
  identifier and the prompt to the answer, or to the message of the exception it raises.
\<close>

type_synonym completion_client = "string \<Rightarrow> string \<Rightarrow> string + string"

definition MODEL_NAME :: string where
  "MODEL_NAME = ''llama-3.1-8b-instant''"

text \<open>What the handler does to the outside world, in order.\<close>

datatype ui_event =
  Spinner
| CompletionCreate string string
| WriteHeading
| WriteAnswer string
| ShowError string
| ShowInfo

text \<open>The f-string of the handler: a line break is \<open>CHR 0x0A\<close>, the apostrophe \<open>CHR 0x27\<close>.\<close>

definition ask_prompt :: "string \<Rightarrow> string \<Rightarrow> string \<Rightarrow> string" where
  "ask_prompt snapshot_text local_stats user_question =
     CHR 0x0A # ''        You are a helpful data analyst. Use ONLY the dataset provided below to answer the user'' @
     CHR 0x27 # ''s question.'' @
     CHR 0x0A # ''        Do not hallucinate. If the question is ambiguous, explicitly state assumptions and compute using the data.'' @
     CHR 0x0A # CHR 0x0A # ''        DATASET SNAPSHOT:'' @
     CHR 0x0A # ''        '' @ snapshot_text @
     CHR 0x0A # CHR 0x0A # ''        LOCAL STATS:'' @
     CHR 0x0A # ''        '' @ local_stats @
     CHR 0x0A # CHR 0x0A # ''        USER QUESTION:'' @
     CHR 0x0A # ''        '' @ user_question @
     CHR 0x0A # CHR 0x0A # ''        Provide a concise, step-by-step answer explaining any computations you did.'' @
     CHR 0x0A # ''        ''"

text \<open>
  \<^verbatim>\<open>
  if ask_btn and user_question:
      prompt = f"""..."""
      with st.spinner(...):
          try:
              resp = GROQ_CLIENT.chat.completions.create(model=MODEL_NAME,
                  messages=[{"role": "user", "content": prompt}], temperature=0.2)
              answer = resp.choices[0].message.content
              st.write(...); st.write(answer)
          except Exception as e:
              st.error(f"Groq API Error: {e}"); st.info(...)
  \<close>
  An empty string is false in Python, so the guard is \<open>ask_btn \<and> user_question \<noteq> []\<close>.
  The handler returns the prompt it built, if any, and the events it caused.
\<close>

definition ask_handler ::
  "completion_client \<Rightarrow> bool \<Rightarrow> string \<Rightarrow> string \<Rightarrow> string \<Rightarrow> string option \<times> ui_event list" where
  "ask_handler client ask_btn user_question snapshot_text local_stats =
     (if ask_btn \<and> user_question \<noteq> [] then
        (let prompt = ask_prompt snapshot_text local_stats user_question in
         (Some prompt,
          Spinner # CompletionCreate MODEL_NAME prompt #
          (case client MODEL_NAME prompt of
             Inr answer \<Rightarrow> [WriteHeading, WriteAnswer answer]
           | Inl e \<Rightarrow> [ShowError (''Groq API Error: '' @ e), ShowInfo])))
      else (None, []))"


section \<open>Example frames\<close>

text \<open>A library for frames that hold no float: its functions are never called.\<close>

definition no_floats :: py_float where
  "no_floats = \<lparr>float_str = (\<lambda>f. []), float_of_int = of_int\<rparr>"

text \<open>A frame with one boolean column, as \<^verbatim>\<open>read_csv\<close> builds it from True/False cells.\<close>

definition flag_frame :: dataframe where
  "flag_frame =
     \<lparr>nrows = 2, columns_index = ObjectIndex,
      series = [\<lparr>name = ''flag'', dtype = D_bool, cells = [VBool True, VBool False]\<rparr>]\<rparr>"


text \<open>A frame whose single column mixes an integer, a string and a missing value.\<close>

definition mixed_frame :: dataframe where
  "mixed_frame =
     \<lparr>nrows = 3, columns_index = ObjectIndex,
      series = [\<lparr>name = ''m'', dtype = D_object,
                 cells = [VInt 1, VStr ''a'', VMissing PyNone]\<rparr>]\<rparr>"

text \<open>What \<open>clean_dataframe\<close> returns for it.\<close>

definition mixed_clean :: dataframe where
  "mixed_clean =
     \<lparr>nrows = 3, columns_index = ObjectIndex,
      series = [\<lparr>name = ''m'', dtype = D_object,
                 cells = [VStr ''1'', VStr ''a'', VStr ''None'']\<rparr>]\<rparr>"

text \<open>A frame with an export artifact column, a column labelled \<^verbatim>\<open>Unnamed\<close> and a data column.\<close>

definition unnamed_frame :: dataframe where
  "unnamed_frame =
     \<lparr>nrows = 2, columns_index = ObjectIndex,
      series = [\<lparr>name = ''Unnamed: 0'', dtype = D_int64, cells = [VInt 0, VInt 1]\<rparr>,
                \<lparr>name = ''Unnamed'', dtype = D_object, cells = [VStr ''x'', VStr ''y'']\<rparr>,
                \<lparr>name = ''Sales'', dtype = D_int64, cells = [VInt 100, VInt 150]\<rparr>]\<rparr>"

text \<open>What \<open>clean_dataframe\<close> returns for it.\<close>

definition sales_frame :: dataframe where
  "sales_frame =
     \<lparr>nrows = 2, columns_index = ObjectIndex,
      series = [\<lparr>name = ''Sales'', dtype = D_Int64, cells = [VInt 100, VInt 150]\<rparr>]\<rparr>"

text \<open>\<^verbatim>\<open>pd.DataFrame()\<close>, the frame \<^verbatim>\<open>read_excel\<close> returns for an empty sheet.\<close>

definition empty_sheet :: dataframe where
  "empty_sheet = \<lparr>nrows = 0, columns_index = RangeIndex, series = []\<rparr>"




text \<open>The texts of the six statistics of such a column.\<close>

fun sevens_text :: "stat \<Rightarrow> column \<Rightarrow> string" where
  "sevens_text S_std c = ''0.000''"
| "sevens_text S_count c = ''2''"
| "sevens_text s c = ''7.000''"

section \<open>Properties of the sanitizer\<close>

lemmas eval_defs = clean_dataframe_def drop_unnamed_def convert_dtypes_def convert_dtypes_col_def
  infer_objects_def to_nullable_def object_to_nullable_def float64_to_nullable_def infer_dtype_def
  seen_nothing_def select_dtypes_def columns_def setitem_astype_str_def astype_str_def
  str_contains_Unnamed_def present_def in_int64_def in_uint64_def fits_float_def Let_def

subsection \<open>The loop over the \<^verbatim>\<open>object\<close> columns\<close>

lemma astype_str_idem: "astype_str fl (astype_str fl c) = astype_str fl c"
  by (simp add: astype_str_def comp_def)

lemma name_astype_str: "name (astype_str fl c) = name c"
  by (simp add: astype_str_def)

lemma series_setitem:
  "series (setitem_astype_str fl n df) =
     map (\<lambda>c. if name c = n then astype_str fl c else c) (series df)"
  by (simp add: setitem_astype_str_def)

lemma series_fold_setitem:
  "series (fold (setitem_astype_str fl) ns df) =
     map (\<lambda>c. if name c \<in> set ns then astype_str fl c else c) (series df)"
proof (induction ns arbitrary: df)
  case Nil
  then show ?case by simp
next
  case (Cons n ns)
  have "series (fold (setitem_astype_str fl) (n # ns) df) =
        map (\<lambda>c. if name c \<in> set ns then astype_str fl c else c)
          (series (setitem_astype_str fl n df))"
    using Cons.IH [of "setitem_astype_str fl n df"] by simp
  also have "\<dots> = map (\<lambda>c. if name c \<in> set (n # ns) then astype_str fl c else c) (series df)"
    by (simp add: series_setitem astype_str_idem name_astype_str)
  finally show ?case .
qed

lemma nrows_setitem: "nrows (setitem_astype_str fl n df) = nrows df"
  by (simp add: setitem_astype_str_def)

lemma nrows_fold_setitem: "nrows (fold (setitem_astype_str fl) ns df) = nrows df"
  by (induction ns arbitrary: df) (simp_all add: nrows_setitem)

lemma index_setitem: "columns_index (setitem_astype_str fl n df) = columns_index df"
  by (simp add: setitem_astype_str_def)

lemma index_fold_setitem: "columns_index (fold (setitem_astype_str fl) ns df) = columns_index df"
  by (induction ns arbitrary: df) (simp_all add: index_setitem)

lemma label_selects:
  fixes cs :: "column list"
  assumes "distinct (map name cs)" and "c \<in> set cs"
  shows "name c \<in> set (map name (filter P cs)) \<longleftrightarrow> P c"
proof
  assume "name c \<in> set (map name (filter P cs))"
  then obtain c' where c': "c' \<in> set cs" "P c'" "name c' = name c"
    by auto
  from assms(1) have "inj_on name (set cs)"
    by (simp add: distinct_map)
  with c' assms(2) have "c' = c"
    by (auto dest: inj_onD)
  with c' show "P c" by simp
next
  assume "P c"
  with assms(2) show "name c \<in> set (map name (filter P cs))" by auto
qed

text \<open>With distinct labels the loop coerces exactly the \<^verbatim>\<open>object\<close> columns.\<close>

lemma series_loop:
  assumes "distinct (columns df)"
  shows "series (fold (setitem_astype_str fl) (columns (select_dtypes [D_object] df)) df) =
     map (finish_col fl) (series df)"
proof -
  from assms have dist: "distinct (map name (series df))"
    by (simp add: columns_def)
  have "series (fold (setitem_astype_str fl) (columns (select_dtypes [D_object] df)) df) =
        map (\<lambda>c. if name c \<in> set (map name (filter (\<lambda>c. dtype c = D_object) (series df)))
                  then astype_str fl c else c) (series df)"
    by (simp add: series_fold_setitem columns_def select_dtypes_def)
  also have "\<dots> = map (\<lambda>c. if dtype c = D_object then astype_str fl c else c) (series df)"
    by (rule map_cong [OF refl]) (simp only: label_selects [OF dist])
  also have "\<dots> = map (finish_col fl) (series df)"
    by (simp add: finish_col_def)
  finally show ?thesis .
qed

subsection \<open>What \<^verbatim>\<open>infer_objects\<close> has seen\<close>

lemma scan_objects_mono:
  assumes "scan_objects s xs = Inr s'"
  shows "(seen_null s \<longrightarrow> seen_null s') \<and> (seen_nan s \<longrightarrow> seen_nan s') \<and>
         (seen_bool s \<longrightarrow> seen_bool s') \<and> (seen_float s \<longrightarrow> seen_float s') \<and>
         (seen_int s \<longrightarrow> seen_int s') \<and> (seen_object s \<longrightarrow> seen_object s')"
  using assms
  by (induction s xs rule: scan_objects.induct) (auto simp: Let_def split: if_splits)

lemma seen_int_kept: "scan_objects s xs = Inr s' \<Longrightarrow> seen_int s \<Longrightarrow> seen_int s'"
  using scan_objects_mono by blast

lemma scan_objects_int_head:
  assumes "scan_objects s (VInt i # xs) = Inr s'" and "\<not> seen_object s'"
  shows "seen_int s'"
proof (cases "seen_null s")
  case True
  with assms have "scan_objects (s\<lparr>seen_int := True\<rparr>) xs = Inr s'"
    by (simp split: if_splits)
  then show ?thesis
    by (rule seen_int_kept) simp
next
  case False
  let ?s = "s\<lparr>seen_int := True,
              seen_sint := seen_sint s \<or> (in_int64 i \<and> i < 0),
              seen_uint := seen_uint s \<or> (in_uint64 i \<and> \<not> in_int64 i)\<rparr>"
  from False assms have "scan_objects ?s xs = Inr s'"
    by (auto simp: Let_def split: if_splits)
  then show ?thesis
    by (rule seen_int_kept) simp
qed

lemma scan_objects_sound:
  assumes "scan_objects s xs = Inr s'" and "\<not> seen_object s'" and "x \<in> set xs"
  shows "\<not> is_str x \<and> x \<noteq> VMissing NA \<and>
         (is_bool x \<longrightarrow> seen_bool s') \<and> (is_float x \<longrightarrow> seen_float s') \<and>
         (is_int x \<longrightarrow> seen_int s') \<and> (x = VMissing PyNone \<longrightarrow> seen_null s') \<and>
         (x = VMissing NaN \<longrightarrow> seen_nan s')"
  using assms
proof (induction s xs rule: scan_objects.induct)
  case (1 s)
  then show ?case by simp
next
  case (2 s xs)
  then show ?case
    using scan_objects_mono [of "s\<lparr>seen_null := True\<rparr>" xs s'] by auto
next
  case (3 s xs)
  then show ?case
    using scan_objects_mono [of "s\<lparr>seen_nan := True\<rparr>" xs s'] by auto
next
  case (4 s xs)
  then show ?case by auto
next
  case (5 s b xs)
  then show ?case
    using scan_objects_mono [of "s\<lparr>seen_bool := True\<rparr>" xs s'] by auto
next
  case (6 s f xs)
  then show ?case
    using scan_objects_mono [of "s\<lparr>seen_float := True\<rparr>" xs s'] by auto
next
  case (7 s t xs)
  then show ?case by auto
next
  case (8 s i xs)
  show ?case
  proof (cases "x = VInt i")
    case True
    from "8.prems"(1,2) have "seen_int s'"
      by (rule scan_objects_int_head)
    with True show ?thesis by simp
  next
    case False
    with "8.prems"(3) have "x \<in> set xs" by simp
    with "8.prems"(1,2) "8.IH" show ?thesis
      by (auto simp: Let_def split: if_splits)
  qed
qed



subsection \<open>One column through \<^verbatim>\<open>convert_dtypes\<close>\<close>

text \<open>The results of \<^verbatim>\<open>infer_objects\<close>, with what each says about the cells.\<close>

lemma infer_objects_cases:
  assumes "infer_objects fl c = Inr c'"
  shows "c' = c \<or>
         (c' = c\<lparr>dtype := D_bool\<rparr> \<and> list_all is_bool (cells c)) \<or>
         (c' = c\<lparr>dtype := D_int64\<rparr> \<and> list_all is_int (cells c)) \<or>
         (c' = c\<lparr>dtype := D_uint64\<rparr> \<and> list_all is_int (cells c)) \<or>
         (c' = c\<lparr>dtype := D_float64, cells := map (as_float64 fl) (cells c)\<rparr> \<and>
          list_all (\<lambda>x. is_int x \<or> is_float x \<or> is_missing x) (cells c))"
proof -
  from assms obtain s where scan: "scan_objects seen_nothing (cells c) = Inr s"
    by (auto simp: infer_objects_def split: sum.splits)
  have kinds: "is_bool x \<or> is_int x \<or> is_float x \<or> is_str x \<or>
      x = VMissing PyNone \<or> x = VMissing NaN \<or> x = VMissing NA" for x
  proof (cases x)
    case (VMissing k)
    then show ?thesis by (cases k) simp_all
  qed simp_all
  show ?thesis
  proof (cases "seen_object s")
    case True
    with assms scan show ?thesis
      by (auto simp: infer_objects_def split: if_splits)
  next
    case False
    note sound = scan_objects_sound [OF scan False]
    consider (bool) "c' = c\<lparr>dtype := D_bool\<rparr>" "seen_bool s" "\<not> seen_int s" "\<not> seen_float s"
          "\<not> seen_nan s" "\<not> seen_null s"
      | (float) "c' = c\<lparr>dtype := D_float64, cells := map (as_float64 fl) (cells c)\<rparr>" "\<not> seen_bool s"
      | (int) "c' = c\<lparr>dtype := D_int64\<rparr> \<or> c' = c\<lparr>dtype := D_uint64\<rparr>" "\<not> seen_bool s"
          "\<not> seen_float s" "\<not> seen_nan s" "\<not> seen_null s"
      | (same) "c' = c"
      using assms scan False by (auto simp: infer_objects_def split: if_splits)
    then show ?thesis
    proof cases
      case bool
      have "is_bool x" if "x \<in> set (cells c)" for x
        using sound [OF that] bool(3-6) kinds [of x] by auto
      with bool(1) show ?thesis
        by (simp add: list_all_iff)
    next
      case float
      have "is_int x \<or> is_float x \<or> is_missing x" if "x \<in> set (cells c)" for x
        using sound [OF that] float(2) kinds [of x] by auto
      with float(1) show ?thesis
        by (simp add: list_all_iff)
    next
      case int
      have "is_int x" if "x \<in> set (cells c)" for x
        using sound [OF that] int(2-5) kinds [of x] by auto
      with int(1) show ?thesis
        by (auto simp: list_all_iff)
    next
      case same
      then show ?thesis by simp
    qed
  qed
qed

lemma name_to_nullable: "to_nullable fl c = Inr c' \<Longrightarrow> name c' = name c"
  by (auto simp: to_nullable_def object_to_nullable_def float64_to_nullable_def
      split: dtype.splits inferred.splits if_splits)

lemma length_to_nullable: "to_nullable fl c = Inr c' \<Longrightarrow> length (cells c') = length (cells c)"
  by (auto simp: to_nullable_def object_to_nullable_def float64_to_nullable_def
      split: dtype.splits inferred.splits if_splits)

lemma name_infer_objects: "infer_objects fl c = Inr c' \<Longrightarrow> name c' = name c"
  using infer_objects_cases [of fl c c'] by auto

lemma length_infer_objects: "infer_objects fl c = Inr c' \<Longrightarrow> length (cells c') = length (cells c)"
  using infer_objects_cases [of fl c c'] by auto

lemma name_convert_dtypes_col: "convert_dtypes_col fl c = Inr c' \<Longrightarrow> name c' = name c"
  by (auto simp: convert_dtypes_col_def name_to_nullable name_infer_objects
      split: if_splits sum.splits)

lemma length_convert_dtypes_col:
  "convert_dtypes_col fl c = Inr c' \<Longrightarrow> length (cells c') = length (cells c)"
  by (auto simp: convert_dtypes_col_def length_to_nullable length_infer_objects
      split: if_splits sum.splits)

lemma name_finish_col: "name (finish_col fl c) = name c"
  by (simp add: finish_col_def name_astype_str)

lemma length_finish_col: "length (cells (finish_col fl c)) = length (cells c)"
  by (simp add: finish_col_def astype_str_def)


subsection \<open>Every converted column has one kind\<close>

lemma uniform_astype_str: "uniform_column (astype_str fl c)"
  by (simp add: uniform_column_def astype_str_def list_all_iff)

lemma to_NA_kind:
  assumes "list_all P (present xs)" and "\<And>x. P x \<Longrightarrow> to_NA x = x"
  shows "list_all (\<lambda>x. P x \<or> x = VMissing NA) (map to_NA xs)"
proof -
  have "P (to_NA x) \<or> to_NA x = VMissing NA" if "x \<in> set xs" for x
  proof (cases "is_missing x")
    case True
    then show ?thesis by (cases x) simp_all
  next
    case False
    with that assms(1) have "P x"
      by (simp add: list_all_iff present_def)
    with assms(2) show ?thesis by simp
  qed
  then show ?thesis
    by (simp add: list_all_iff)
qed

lemma to_NA_fixes: "is_str x \<or> is_int x \<or> is_bool x \<or> is_float x \<Longrightarrow> to_NA x = x"
  by (cases x) simp_all

lemma uniform_float64_to_nullable:
  assumes "list_all (\<lambda>x. is_float x \<or> is_missing x) (cells c)"
  shows "uniform_column (float64_to_nullable c)"
proof -
  have cell: "is_float x \<or> is_missing x" if "x \<in> set (cells c)" for x
    using that assms by (simp add: list_all_iff)
  have "is_int (as_int x) \<or> as_int x = VMissing NA" if "x \<in> set (cells c)" for x
    using cell [OF that] by (cases x) simp_all
  moreover have "is_float (to_NA x) \<or> to_NA x = VMissing NA" if "x \<in> set (cells c)" for x
    using cell [OF that] by (cases x) simp_all
  ultimately show ?thesis
    by (simp add: float64_to_nullable_def uniform_column_def list_all_iff)
qed

lemma as_float64_kind:
  "is_int x \<or> is_float x \<or> is_missing x \<Longrightarrow>
   is_float (as_float64 fl x) \<or> is_missing (as_float64 fl x)"
  by (cases x) simp_all

lemma uniform_object_to_nullable:
  assumes "object_to_nullable fl c = Inr c'" and "dtype c = D_object"
  shows "uniform_column (finish_col fl c')"
proof (cases "infer_dtype (cells c)")
  case I_string
  then have "list_all is_str (present (cells c))"
    by (auto simp: infer_dtype_def Let_def split: if_splits)
  then have "list_all (\<lambda>x. is_str x \<or> x = VMissing NA) (map to_NA (cells c))"
    by (rule to_NA_kind) (simp add: to_NA_fixes)
  with assms I_string show ?thesis
    by (auto simp: object_to_nullable_def finish_col_def uniform_column_def)
next
  case I_integer
  then have "list_all is_int (present (cells c))"
    by (auto simp: infer_dtype_def Let_def split: if_splits)
  then have "list_all (\<lambda>x. is_int x \<or> x = VMissing NA) (map to_NA (cells c))"
    by (rule to_NA_kind) (simp add: to_NA_fixes)
  with assms I_integer show ?thesis
    by (auto simp: object_to_nullable_def finish_col_def uniform_column_def split: if_splits)
next
  case I_boolean
  then have "list_all is_bool (present (cells c))"
    by (auto simp: infer_dtype_def Let_def split: if_splits)
  then have "list_all (\<lambda>x. is_bool x \<or> x = VMissing NA) (map to_NA (cells c))"
    by (rule to_NA_kind) (simp add: to_NA_fixes)
  with assms I_boolean show ?thesis
    by (auto simp: object_to_nullable_def finish_col_def uniform_column_def)
next
  case I_mixed_integer_float
  then have ps: "list_all (\<lambda>x. is_int x \<or> is_float x) (present (cells c))"
    by (auto simp: infer_dtype_def Let_def split: if_splits)
  have "is_float (as_Float64 fl x) \<or> as_Float64 fl x = VMissing NA" if "x \<in> set (cells c)" for x
  proof (cases "is_missing x")
    case True
    then show ?thesis by (cases x) simp_all
  next
    case False
    with that ps have "is_int x \<or> is_float x"
      by (simp add: list_all_iff present_def)
    then show ?thesis by (cases x) simp_all
  qed
  with assms I_mixed_integer_float show ?thesis
    by (auto simp: object_to_nullable_def finish_col_def uniform_column_def list_all_iff)
next
  case I_floating
  with assms have "c' = c"
    by (simp add: object_to_nullable_def)
  with assms(2) show ?thesis
    by (simp add: finish_col_def uniform_astype_str)
next
  case I_empty
  with assms have "c' = c"
    by (simp add: object_to_nullable_def)
  with assms(2) show ?thesis
    by (simp add: finish_col_def uniform_astype_str)
next
  case I_mixed
  with assms have "c' = c"
    by (simp add: object_to_nullable_def)
  with assms(2) show ?thesis
    by (simp add: finish_col_def uniform_astype_str)
qed

lemma int_in_is_int: "int_in p x \<Longrightarrow> is_int x"
  by (cases x) simp_all

lemma wf_kinded: "wf_column c \<Longrightarrow> kinded_column c"
  by (cases "dtype c")
     (auto simp: wf_column_def kinded_column_def uniform_column_def list_all_iff
        dest: int_in_is_int)

lemma uniform_to_nullable:
  assumes "kinded_column c" and "to_nullable fl c = Inr c'"
  shows "uniform_column (finish_col fl c')"
proof (cases "dtype c")
  case D_float64
  with assms(1) have "uniform_column (float64_to_nullable c)"
    by (simp add: kinded_column_def uniform_float64_to_nullable)
  moreover have "dtype (float64_to_nullable c) \<noteq> D_object"
    by (simp add: float64_to_nullable_def)
  ultimately show ?thesis
    using assms(2) D_float64 by (auto simp: to_nullable_def finish_col_def)
next
  case D_object
  with assms(2) have "object_to_nullable fl c = Inr c'"
    by (simp add: to_nullable_def)
  then show ?thesis
    using D_object by (rule uniform_object_to_nullable)
qed (use assms in \<open>auto simp: to_nullable_def finish_col_def uniform_column_def kinded_column_def
      list_all_iff\<close>)

lemma kinded_infer_objects:
  assumes "infer_objects fl c = Inr c1" and "dtype c = D_object"
  shows "kinded_column c1"
  using infer_objects_cases [OF assms(1)]
proof (elim disjE conjE)
  assume "c1 = c"
  with assms(2) show ?thesis by (simp add: kinded_column_def)
next
  assume "c1 = c\<lparr>dtype := D_bool\<rparr>" and "list_all is_bool (cells c)"
  then show ?thesis by (simp add: kinded_column_def)
next
  assume "c1 = c\<lparr>dtype := D_int64\<rparr>" and "list_all is_int (cells c)"
  then show ?thesis by (simp add: kinded_column_def)
next
  assume "c1 = c\<lparr>dtype := D_uint64\<rparr>" and "list_all is_int (cells c)"
  then show ?thesis by (simp add: kinded_column_def)
next
  assume c1: "c1 = c\<lparr>dtype := D_float64, cells := map (as_float64 fl) (cells c)\<rparr>"
    and "list_all (\<lambda>x. is_int x \<or> is_float x \<or> is_missing x) (cells c)"
  then have "\<forall>x\<in>set (cells c). is_float (as_float64 fl x) \<or> is_missing (as_float64 fl x)"
    using as_float64_kind by (simp add: list_all_iff)
  with c1 show ?thesis
    by (simp add: kinded_column_def list_all_iff)
qed

lemma uniform_convert_dtypes_col:
  assumes "wf_column c" and "convert_dtypes_col fl c = Inr c'"
  shows "uniform_column (finish_col fl c')"
proof (cases "dtype c = D_object")
  case False
  with assms(2) have "to_nullable fl c = Inr c'"
    by (simp add: convert_dtypes_col_def)
  with wf_kinded [OF assms(1)] show ?thesis
    by (rule uniform_to_nullable)
next
  case True
  with assms(2) obtain c1 where c1: "infer_objects fl c = Inr c1" and c': "to_nullable fl c1 = Inr c'"
    by (auto simp: convert_dtypes_col_def split: sum.splits)
  from c1 True have "kinded_column c1"
    by (rule kinded_infer_objects)
  then show ?thesis
    using c' by (rule uniform_to_nullable)
qed

subsection \<open>The whole frame\<close>

lemma convert_columns_Inr:
  "convert_columns fl cs = Inr cs' \<Longrightarrow>
   list_all2 (\<lambda>c c'. convert_dtypes_col fl c = Inr c') cs cs'"
  by (induction cs arbitrary: cs') (auto split: sum.splits)


lemma list_all2_source:
  "list_all2 R xs ys \<Longrightarrow> y \<in> set ys \<Longrightarrow> \<exists>x\<in>set xs. R x y"
  by (induction rule: list_all2_induct) auto

text \<open>What a returned frame is made of.\<close>

lemma clean_dataframe_Inr:
  assumes "clean_dataframe fl df = Inr out" and "distinct (columns df)"
  shows "\<exists>cs. list_all2 (\<lambda>c c'. convert_dtypes_col fl c = Inr c')
            (filter (\<lambda>c. \<not> str_contains_Unnamed (name c)) (series df)) cs \<and>
          series out = map (finish_col fl) cs \<and>
          nrows out = nrows df \<and> columns_index out = ObjectIndex \<and>
          columns_index df = ObjectIndex"
proof -
  let ?kept = "filter (\<lambda>c. \<not> str_contains_Unnamed (name c)) (series df)"
  from assms(1) have idx: "columns_index df = ObjectIndex"
    by (cases "columns_index df") (simp_all add: clean_dataframe_def drop_unnamed_def)
  with assms(1) obtain cs where cs: "convert_columns fl ?kept = Inr cs"
    and out: "out = fold (setitem_astype_str fl)
        (columns (select_dtypes [D_object] (df\<lparr>series := cs\<rparr>))) (df\<lparr>series := cs\<rparr>)"
    by (auto simp: clean_dataframe_def drop_unnamed_def convert_dtypes_def split: sum.splits)
  from cs have rel: "list_all2 (\<lambda>c c'. convert_dtypes_col fl c = Inr c') ?kept cs"
    by (rule convert_columns_Inr)
  then have "list_all2 (\<lambda>c c'. name c' = name c) ?kept cs"
    by (rule list_all2_mono) (simp add: name_convert_dtypes_col)
  then have "map name cs = map name ?kept"
    by (induction rule: list_all2_induct) simp_all
  moreover from assms(2) have "distinct (map name ?kept)"
    by (simp add: columns_def distinct_map_filter)
  ultimately have "distinct (columns (df\<lparr>series := cs\<rparr>))"
    by (simp add: columns_def)
  then have "series out = map (finish_col fl) cs"
    unfolding out by (simp add: series_loop)
  moreover have "nrows out = nrows df" and "columns_index out = ObjectIndex"
    unfolding out using idx by (simp_all add: nrows_fold_setitem index_fold_setitem)
  ultimately show ?thesis
    using rel idx by blast
qed


lemma columns_clean_dataframe:
  assumes "clean_dataframe fl df = Inr out" and "distinct (columns df)"
  shows "columns out = filter (\<lambda>n. \<not> str_contains_Unnamed n) (columns df)"
proof -
  let ?kept = "filter (\<lambda>c. \<not> str_contains_Unnamed (name c)) (series df)"
  from clean_dataframe_Inr [OF assms] obtain cs
    where rel: "list_all2 (\<lambda>c c'. convert_dtypes_col fl c = Inr c') ?kept cs"
      and out: "series out = map (finish_col fl) cs"
    by blast
  from rel have "list_all2 (\<lambda>c c'. name c' = name c) ?kept cs"
    by (rule list_all2_mono) (simp add: name_convert_dtypes_col)
  then have "map name cs = map name ?kept"
    by (induction rule: list_all2_induct) simp_all
  moreover have "name \<circ> finish_col fl = name"
    by (rule ext) (simp add: name_finish_col)
  ultimately show ?thesis
    by (simp add: columns_def out filter_map comp_def)
qed

text \<open>
  The frame effect of a call that returns: no more columns, the same rows, distinct
  labels.
\<close>

lemma frame_clean_dataframe:
  assumes "clean_dataframe fl df = Inr out" and "distinct (columns df)"
    and "list_all (\<lambda>c. length (cells c) = nrows df) (series df)"
  shows "length (series out) \<le> length (series df) \<and> nrows out = nrows df \<and>
         list_all (\<lambda>c. length (cells c) = nrows df) (series out) \<and>
         distinct (columns out)"
proof -
  let ?kept = "filter (\<lambda>c. \<not> str_contains_Unnamed (name c)) (series df)"
  from clean_dataframe_Inr [OF assms(1,2)] obtain cs
    where rel: "list_all2 (\<lambda>c c'. convert_dtypes_col fl c = Inr c') ?kept cs"
      and out: "series out = map (finish_col fl) cs" and rows: "nrows out = nrows df"
    by blast
  from rel have "length cs = length ?kept"
    by (simp add: list_all2_lengthD)
  then have "length (series out) \<le> length (series df)"
    by (simp add: out)
  moreover have "length (cells c') = nrows df" if "c' \<in> set cs" for c'
  proof -
    from list_all2_source [OF rel that]
    obtain c where "c \<in> set ?kept" and "convert_dtypes_col fl c = Inr c'"
      by blast
    with assms(3) show ?thesis
      by (auto simp: list_all_iff dest: length_convert_dtypes_col)
  qed
  then have "list_all (\<lambda>c. length (cells c) = nrows df) (series out)"
    by (simp add: out list_all_iff length_finish_col)
  moreover from assms(2) have "distinct (columns out)"
    by (simp add: columns_clean_dataframe [OF assms(1,2)])
  ultimately show ?thesis
    using rows by simp
qed

lemma uniform_clean_dataframe:
  assumes "wf_df df" and "clean_dataframe fl df = Inr out" and "c' \<in> set (series out)"
  shows "uniform_column c'"
proof -
  let ?kept = "filter (\<lambda>c. \<not> str_contains_Unnamed (name c)) (series df)"
  from assms(1) have dist: "distinct (columns df)" and wf: "\<forall>c\<in>set (series df). wf_column c"
    by (simp_all add: wf_df_def list_all_iff)
  from clean_dataframe_Inr [OF assms(2) dist] obtain cs
    where rel: "list_all2 (\<lambda>c c'. convert_dtypes_col fl c = Inr c') ?kept cs"
      and out: "series out = map (finish_col fl) cs"
    by blast
  from assms(3) out obtain c1 where "c1 \<in> set cs" and c': "c' = finish_col fl c1"
    by auto
  with list_all2_source [OF rel]
  obtain c where "c \<in> set ?kept" and "convert_dtypes_col fl c = Inr c1"
    by blast
  with wf have "uniform_column (finish_col fl c1)"
    by (auto intro: uniform_convert_dtypes_col)
  with c' show ?thesis by simp
qed

subsection \<open>A second application\<close>

lemma strs_unchanged: "list_all is_str xs \<Longrightarrow> map to_NA xs = xs \<and> present xs = xs"
proof (induction xs)
  case Nil
  then show ?case by (simp add: present_def)
next
  case (Cons x xs)
  then show ?case by (cases x) (simp_all add: present_def)
qed

lemma scan_objects_strs:
  "list_all is_str xs \<Longrightarrow>
   scan_objects seen_nothing xs = Inr (if xs = [] then seen_nothing else seen_nothing\<lparr>seen_object := True\<rparr>)"
proof (cases xs)
  case Nil
  then show ?thesis by simp
next
  case (Cons x xs')
  assume "list_all is_str xs"
  with Cons show ?thesis by (cases x) simp_all
qed

text \<open>A column of one kind comes back with its label, its kind and its cells.\<close>

lemma convert_uniform_col:
  assumes "uniform_column c"
  shows "\<exists>c'. convert_dtypes_col fl c = Inr c' \<and> name (finish_col fl c') = name c \<and>
           kind_of (dtype (finish_col fl c')) = kind_of (dtype c) \<and>
           cells (finish_col fl c') = cells c"
proof (cases "dtype c = D_object")
  case False
  with assms have "convert_dtypes_col fl c = Inr c"
    by (cases "dtype c") (simp_all add: convert_dtypes_col_def to_nullable_def uniform_column_def)
  with False show ?thesis
    by (simp add: finish_col_def)
next
  case True
  with assms have strs: "list_all is_str (cells c)"
    by (simp add: uniform_column_def)
  have scan: "infer_objects fl c = Inr c"
    unfolding infer_objects_def scan_objects_strs [OF strs]
    by (simp add: seen_nothing_def)
  show ?thesis
  proof (cases "cells c")
    case Nil
    with True scan have "convert_dtypes_col fl c = Inr c"
      by (simp add: convert_dtypes_col_def to_nullable_def object_to_nullable_def
          infer_dtype_def present_def)
    with True Nil show ?thesis
      by (simp add: finish_col_def astype_str_def)
  next
    case (Cons x xs)
    with strs strs_unchanged [OF strs] have "infer_dtype (cells c) = I_string"
      by (simp add: infer_dtype_def)
    with True scan strs_unchanged [OF strs]
    have "convert_dtypes_col fl c = Inr (c\<lparr>dtype := D_string\<rparr>)"
      by (simp add: convert_dtypes_col_def to_nullable_def object_to_nullable_def)
    with True show ?thesis
      by (simp add: finish_col_def)
  qed
qed

lemma convert_uniform_columns:
  assumes "\<forall>c\<in>set cs. uniform_column c"
  shows "\<exists>cs'. convert_columns fl cs = Inr cs' \<and>
           map (\<lambda>c. (name c, kind_of (dtype c), cells c)) (map (finish_col fl) cs') =
           map (\<lambda>c. (name c, kind_of (dtype c), cells c)) cs"
  using assms
proof (induction cs)
  case Nil
  then show ?case by simp
next
  case (Cons c cs)
  then obtain cs' where "convert_columns fl cs = Inr cs'"
    and "map (\<lambda>c. (name c, kind_of (dtype c), cells c)) (map (finish_col fl) cs') =
           map (\<lambda>c. (name c, kind_of (dtype c), cells c)) cs"
    by auto
  moreover from Cons.prems obtain c' where "convert_dtypes_col fl c = Inr c'"
    and "name (finish_col fl c') = name c"
    and "kind_of (dtype (finish_col fl c')) = kind_of (dtype c)"
    and "cells (finish_col fl c') = cells c"
    using convert_uniform_col [of c fl] by auto
  ultimately show ?case by simp
qed

subsection \<open>The dtypes at the limits of the integer ranges\<close>

lemmas col_defs = convert_dtypes_col_def infer_objects_def to_nullable_def object_to_nullable_def
  float64_to_nullable_def infer_dtype_def seen_nothing_def present_def in_int64_def in_uint64_def
  fits_float_def Let_def

text \<open>Integers above the \<^verbatim>\<open>int64\<close> range that fit \<^verbatim>\<open>uint64\<close> give a \<^verbatim>\<open>UInt64\<close> column.\<close>

lemma convert_dtypes_col_uint64:
  "convert_dtypes_col fl \<lparr>name = n, dtype = D_object, cells = [VInt (2 ^ 63), VInt 1]\<rparr> =
     Inr \<lparr>name = n, dtype = D_UInt64, cells = [VInt (2 ^ 63), VInt 1]\<rparr>"
  by (simp add: col_defs)

text \<open>An integer that no 64-bit dtype holds makes the cast to \<^verbatim>\<open>Int64\<close> raise.\<close>

lemma convert_dtypes_col_overflow:
  "convert_dtypes_col fl \<lparr>name = n, dtype = D_object, cells = [VInt (2 ^ 70)]\<rparr> =
     Inl OverflowError"
  by (simp add: col_defs)

text \<open>A float beyond the \<^verbatim>\<open>int64\<close> range keeps the column \<^verbatim>\<open>Float64\<close>.\<close>

lemma convert_dtypes_col_big_float:
  "convert_dtypes_col fl \<lparr>name = n, dtype = D_float64, cells = [VFloat (10 ^ 20), VFloat 1]\<rparr> =
     Inr \<lparr>name = n, dtype = D_Float64, cells = [VFloat (10 ^ 20), VFloat 1]\<rparr>"
  by (simp add: col_defs)

subsection \<open>Claims about \<open>clean_dataframe\<close>\<close>




text \<open>
  Claim C2 on the code: the pattern \<^verbatim>\<open>^Unnamed\<close> matches every label that begins with
  \<^verbatim>\<open>Unnamed\<close>, so the column labelled \<^verbatim>\<open>Unnamed\<close> is dropped together with \<^verbatim>\<open>Unnamed: 0\<close>.
\<close>

theorem clean_dataframe_drops_Unnamed_label:
  "clean_dataframe fl unnamed_frame = Inr sales_frame \<and> columns sales_frame = [''Sales'']"
  by (simp add: unnamed_frame_def sales_frame_def eval_defs)

text \<open>
  Claim C3. For every well-typed frame on which \<open>clean_dataframe\<close> returns, applying it to
  its own output returns again, and the two outputs are the same CleanTable: the same
  row count, and column by column the same label, kind and cells.
\<close>

theorem clean_dataframe_idempotent:
  assumes "wf_df df" and "clean_dataframe fl df = Inr out"
  shows "\<exists>out2. clean_dataframe fl out = Inr out2 \<and> clean_table out2 = clean_table out"
proof -
  from assms(1) have dist: "distinct (columns df)"
    and rows: "list_all (\<lambda>c. length (cells c) = nrows df) (series df)"
    by (simp_all add: wf_df_def)
  from clean_dataframe_Inr [OF assms(2) dist] have idx: "columns_index out = ObjectIndex"
    by blast
  from frame_clean_dataframe [OF assms(2) dist rows] have dist_out: "distinct (columns out)"
    by simp
  have uni: "\<forall>c\<in>set (series out). uniform_column c"
    using assms by (blast intro: uniform_clean_dataframe)
  have "\<forall>n\<in>set (columns out). \<not> str_contains_Unnamed n"
    by (simp add: columns_clean_dataframe [OF assms(2) dist])
  then have "filter (\<lambda>c. \<not> str_contains_Unnamed (name c)) (series out) = series out"
    by (simp add: columns_def)
  with idx have drop: "drop_unnamed out = Inr out"
    by (simp add: drop_unnamed_def)
  from convert_uniform_columns [OF uni, of fl] obtain cs
    where cs: "convert_columns fl (series out) = Inr cs"
      and same: "map (\<lambda>c. (name c, kind_of (dtype c), cells c)) (map (finish_col fl) cs) =
           map (\<lambda>c. (name c, kind_of (dtype c), cells c)) (series out)"
    by blast
  let ?df2 = "out\<lparr>series := cs\<rparr>"
  let ?out2 = "fold (setitem_astype_str fl) (columns (select_dtypes [D_object] ?df2)) ?df2"
  have out2: "clean_dataframe fl out = Inr ?out2"
    by (simp add: clean_dataframe_def drop convert_dtypes_def cs)
  from same have "map fst (map (\<lambda>c. (name c, kind_of (dtype c), cells c)) (map (finish_col fl) cs)) =
      map fst (map (\<lambda>c. (name c, kind_of (dtype c), cells c)) (series out))"
    by simp
  then have "map name cs = map name (series out)"
    by (simp add: comp_def name_finish_col)
  with dist_out have "distinct (columns ?df2)"
    by (simp add: columns_def)
  then have ser: "series ?out2 = map (finish_col fl) cs"
    by (simp add: series_loop)
  have rows2: "nrows ?out2 = nrows out"
    by (simp add: nrows_fold_setitem)
  have "clean_table ?out2 = clean_table out"
    unfolding clean_table_def ser rows2 same by (rule refl)
  with out2 show ?thesis by blast
qed

theorem clean_dataframe_idempotent_witness:
  "wf_df mixed_frame \<and> clean_dataframe no_floats mixed_frame = Inr mixed_clean \<and>
   (\<exists>out2. clean_dataframe no_floats mixed_clean = Inr out2 \<and>
      clean_table out2 = clean_table mixed_clean)"
proof -
  have wf: "wf_df mixed_frame"
    by (simp add: wf_df_def wf_column_def columns_def mixed_frame_def)
  have out: "clean_dataframe no_floats mixed_frame = Inr mixed_clean"
    by (simp add: mixed_frame_def mixed_clean_def eval_defs py_str_int_def digit_char_def)
  from clean_dataframe_idempotent [OF wf out] wf out show ?thesis
    by simp
qed

text \<open>
  Claim C9 on the code: for the frame of an empty sheet, which is well typed,
  \<open>clean_dataframe\<close> returns no frame at all: \<^verbatim>\<open>df.columns.str\<close> raises \<^verbatim>\<open>AttributeError\<close>.
\<close>

theorem clean_dataframe_raises_on_empty_sheet:
  "wf_df empty_sheet \<and> clean_dataframe fl empty_sheet = Inl AttributeError"
  by (simp add: empty_sheet_def wf_df_def columns_def clean_dataframe_def drop_unnamed_def)

section \<open>Properties of the snapshot builder\<close>

text \<open>
  Claim C10. For the cleaned frame with one boolean column, the snapshot text writes the
  label \<^verbatim>\<open>flag\<close> in the column list and renders the column in the sample rows, while both
  the numeric list and the categorical/text list it writes are the empty list.
\<close>

theorem snapshot_misses_boolean_column:
  "clean_dataframe fl flag_frame =
     Inr \<lparr>nrows = 2, columns_index = ObjectIndex,
          series = [\<lparr>name = ''flag'', dtype = D_boolean, cells = [VBool True, VBool False]\<rparr>]\<rparr> \<and>
   build_dataset_snapshot lib
     \<lparr>nrows = 2, columns_index = ObjectIndex,
      series = [\<lparr>name = ''flag'', dtype = D_boolean, cells = [VBool True, VBool False]\<rparr>]\<rparr> 10 =
     dedent lib
       (CHR 0x0A # ''    Dataset shape: 2 rows x 1 columns'' @
        CHR 0x0A # ''    Columns: '' @ repr_list lib [''flag''] @
        CHR 0x0A # ''    Numeric columns: '' @ repr_list lib [] @
        CHR 0x0A # ''    Categorical/text columns: '' @ repr_list lib [] @
        CHR 0x0A # CHR 0x0A # ''    First 2 rows (CSV):'' @
        CHR 0x0A # ''    '' @
        to_csv lib
          \<lparr>nrows = 2, columns_index = ObjectIndex,
           series = [\<lparr>name = ''flag'', dtype = D_boolean, cells = [VBool True, VBool False]\<rparr>]\<rparr> @
        CHR 0x0A # ''    '')"
proof -
  have "clean_dataframe fl flag_frame =
     Inr \<lparr>nrows = 2, columns_index = ObjectIndex,
          series = [\<lparr>name = ''flag'', dtype = D_boolean, cells = [VBool True, VBool False]\<rparr>]\<rparr>"
    by (simp add: flag_frame_def eval_defs)
  then show ?thesis
    by (simp add: build_dataset_snapshot_def head_def head_count_def select_dtypes_def
        columns_def shape_def py_str_int_def digit_char_def)
qed

section \<open>Properties of the stats summarizer\<close>









text \<open>
  Claim C5. For a frame with no numeric column, the summarizer returns the text
  \<^verbatim>\<open>No numeric columns detected.\<close> and raises nothing.
\<close>

theorem stats_no_numeric:
  assumes "list_all (\<lambda>c. dtype c \<notin> set [D_int64, D_float64, D_Int64, D_Float64]) (series df)"
  shows "local_basic_stats_text st df k = Inr ''No numeric columns detected.''"
proof -
  from assms have "filter (\<lambda>c. dtype c \<in> set [D_int64, D_float64, D_Int64, D_Float64]) (series df) = []"
    by (simp add: filter_empty_conv list_all_iff)
  then show ?thesis
    by (simp add: local_basic_stats_text_def nums_of_def select_dtypes_def shape_def)
qed

text \<open>The cleaned frame with one text column.\<close>

theorem stats_no_numeric_witness:
  "clean_dataframe no_floats mixed_frame = Inr mixed_clean \<and>
   list_all (\<lambda>c. dtype c \<notin> set [D_int64, D_float64, D_Int64, D_Float64]) (series mixed_clean) \<and>
   local_basic_stats_text sevens_text mixed_clean 5 = Inr ''No numeric columns detected.''"
proof -
  have out: "clean_dataframe no_floats mixed_frame = Inr mixed_clean"
    by (simp add: mixed_frame_def mixed_clean_def eval_defs py_str_int_def digit_char_def)
  have "list_all (\<lambda>c. dtype c \<notin> set [D_int64, D_float64, D_Int64, D_Float64]) (series mixed_clean)"
    by (simp add: mixed_clean_def)
  with stats_no_numeric [OF this, of sevens_text 5] out show ?thesis
    by simp
qed

section \<open>Properties of the "Ask" action\<close>

text \<open>
  Claim C6. With an empty question the handler is a no-op, whether or not the button was
  pressed: it builds no prompt, and it causes no event (no call of the completion
  client, no error shown).
\<close>

theorem blank_question_no_op:
  "ask_handler client ask_btn [] snapshot_text local_stats = (None, [])"
  by (simp add: ask_handler_def)

end
